theory Spec2Isabelle
  imports Main "HOL-Library.Word"
begin

section \<open>Data model\<close>

text \<open>
  The command line script \<^verbatim>\<open>run_controller_cli.py\<close> and the connection setup of
  \<^verbatim>\<open>joycontrol/server.py\<close> work on a controller state object, a flash memory
  image, files read from disk and Bluetooth sockets. Python exceptions are values of
  \<open>error\<close>; a function that mutates the controller state and may raise returns the
  pair of the raised exception (if any) and the state as the call left it.
\<close>

type_synonym byte = "8 word"

datatype Controller = JOYCON_L | JOYCON_R | PRO_CONTROLLER

datatype error =
    ValueError string
  | FileNotFoundError string
  | NotConnectedError
  | AssertionError
  | OSError
  | OutOfBounds

text \<open>A file system as far as \<^verbatim>\<open>open(path, 'rb')\<close> sees it: the bytes of each file.\<close>

type_synonym files = "string \<rightharpoonup> byte list"

subsection \<open>Controller state\<close>

text \<open>
  Modelled from the spec: the classes \<^verbatim>\<open>ControllerState\<close>, \<^verbatim>\<open>ButtonState\<close> and
  \<^verbatim>\<open>StickState\<close> of \<^verbatim>\<open>joycontrol.controller_state\<close> are not among the source files.
  The records follow section 3 of the specification: the immutable variant, the button
  set (with the variant's valid names), the sticks with their calibration, the optional
  NFC payload, and the send primitive's view of the transport (the input reports handed
  to it, oldest first, and whether the connection is closed).
\<close>

record StickState =
  h_stick :: nat
  v_stick :: nat
  h_center :: nat
  h_min :: nat
  h_max :: nat
  v_center :: nat
  v_min :: nat
  v_max :: nat

record ButtonState =
  available_buttons :: "string list"
  pushed :: "string \<Rightarrow> bool"

record InputReport =
  report_buttons :: "string \<Rightarrow> bool"
  report_l_stick :: "nat \<times> nat"
  report_r_stick :: "nat \<times> nat"

record ControllerState =
  controller :: Controller
  button_state :: ButtonState
  l_stick_state :: StickState
  r_stick_state :: StickState
  nfc_content :: "byte list option"
  transmitted :: "InputReport list"
  closed :: bool

type_synonym outcome = "error option \<times> ControllerState"

definition get_controller :: "ControllerState \<Rightarrow> Controller" where
  "get_controller cs = controller cs"

definition get_available_buttons :: "ButtonState \<Rightarrow> string list" where
  "get_available_buttons bs = available_buttons bs"

text \<open>
  Modelled from the spec: \<^verbatim>\<open>ControllerState.set_nfc\<close> is not among the source files.
  Section 4.3: \<open>set_nfc(payload | none)\<close> is a pure mutation of the NFC payload.
\<close>

definition ControllerState_set_nfc :: "byte list option \<Rightarrow> ControllerState \<Rightarrow> ControllerState" where
  "ControllerState_set_nfc content cs = cs\<lparr>nfc_content := content\<rparr>"

section \<open>The nfc command\<close>

text \<open>
  \<^verbatim>\<open>set_nfc(controller_state, file_path)\<close> of \<^verbatim>\<open>run_controller_cli.py\<close>: opens the
  file, reads all of it and stores the content. A path that names no file makes
  \<^verbatim>\<open>open\<close> raise before the state is touched.
\<close>

definition set_nfc :: "files \<Rightarrow> ControllerState \<Rightarrow> string \<Rightarrow> outcome" where
  "set_nfc fs controller_state file_path =
     (case fs file_path of
        None \<Rightarrow> (Some (FileNotFoundError file_path), controller_state)
      | Some content \<Rightarrow> (None, ControllerState_set_nfc (Some content) controller_state))"

text \<open>
  The closure \<^verbatim>\<open>nfc(*args)\<close> defined in \<^verbatim>\<open>_main\<close>, with the controller state it
  closes over as an argument. The \<^verbatim>\<open>print\<close> of the remove branch has no effect on
  the state.
\<close>

definition nfc :: "files \<Rightarrow> ControllerState \<Rightarrow> string list \<Rightarrow> outcome" where
  "nfc fs controller_state args =
     (if get_controller controller_state = JOYCON_L then
        (Some (ValueError ''NFC content cannot be set for JOYCON_L''), controller_state)
      else if args = [] then
        (Some (ValueError ''nfc command requires file path to an nfc dump as argument!''),
         controller_state)
      else if hd args = ''remove'' then
        (None, ControllerState_set_nfc None controller_state)
      else set_nfc fs controller_state (hd args))"

section \<open>Buttons, sticks and the send primitive\<close>

text \<open>
  Modelled from the spec: \<^verbatim>\<open>ButtonState.set_button\<close> is not among the source files.
  Sections 4.3 and 8: a name that is not valid for the configured variant raises
  immediately and never mutates the state; otherwise the named button is set and every
  other button keeps its value.
\<close>

definition set_button :: "string \<Rightarrow> bool \<Rightarrow> ControllerState \<Rightarrow> outcome" where
  "set_button button p cs =
     (if button \<notin> set (get_available_buttons (button_state cs)) then
        (Some (ValueError (''Given button '' @ button @ '' is not available'')), cs)
      else
        (None, cs\<lparr>button_state := (button_state cs)\<lparr>pushed := (pushed (button_state cs))(button := p)\<rparr>\<rparr>))"

text \<open>
  Modelled from the spec: \<^verbatim>\<open>ControllerCLI._set_stick\<close> and the stick setters are not
  among the source files. Section 3: a stick holds a calibrated position on two axes and
  its calibration (center, min, max per axis); a direction moves it to the calibrated
  extreme of that direction.
\<close>

definition ControllerCLI_set_stick :: "StickState \<Rightarrow> string \<Rightarrow> error + StickState" where
  "ControllerCLI_set_stick stick direction =
     (if direction = ''center'' then Inr (stick\<lparr>h_stick := h_center stick, v_stick := v_center stick\<rparr>)
      else if direction = ''up'' then Inr (stick\<lparr>h_stick := h_center stick, v_stick := v_max stick\<rparr>)
      else if direction = ''down'' then Inr (stick\<lparr>h_stick := h_center stick, v_stick := v_min stick\<rparr>)
      else if direction = ''left'' then Inr (stick\<lparr>h_stick := h_min stick, v_stick := v_center stick\<rparr>)
      else if direction = ''right'' then Inr (stick\<lparr>h_stick := h_max stick, v_stick := v_center stick\<rparr>)
      else Inl (ValueError (''Unexpected argument '' @ direction)))"

text \<open>
  \<^verbatim>\<open>LeftStick\<close> and \<^verbatim>\<open>RightStick\<close> of \<^verbatim>\<open>directStateSet\<close> are references to the
  stick objects of the controller state, so setting them changes the state.
\<close>

definition set_LeftStick :: "string \<Rightarrow> ControllerState \<Rightarrow> outcome" where
  "set_LeftStick direction cs =
     (case ControllerCLI_set_stick (l_stick_state cs) direction of
        Inl e \<Rightarrow> (Some e, cs)
      | Inr stick \<Rightarrow> (None, cs\<lparr>l_stick_state := stick\<rparr>))"

definition set_RightStick :: "string \<Rightarrow> ControllerState \<Rightarrow> outcome" where
  "set_RightStick direction cs =
     (case ControllerCLI_set_stick (r_stick_state cs) direction of
        Inl e \<Rightarrow> (Some e, cs)
      | Inr stick \<Rightarrow> (None, cs\<lparr>r_stick_state := stick\<rparr>))"

text \<open>
  Modelled from the spec: the snapshot that an input report carries. Section 3: a button
  that the variant does not have always encodes as unpressed.
\<close>

definition snapshot :: "ControllerState \<Rightarrow> InputReport" where
  "snapshot cs =
     \<lparr>report_buttons = (\<lambda>b. b \<in> set (available_buttons (button_state cs)) \<and> pushed (button_state cs) b),
      report_l_stick = (h_stick (l_stick_state cs), v_stick (l_stick_state cs)),
      report_r_stick = (h_stick (r_stick_state cs), v_stick (r_stick_state cs))\<rparr>"

text \<open>
  Modelled from the spec: \<^verbatim>\<open>ControllerState.send\<close> is not among the source files.
  Section 3: the call returns once an input report with the current snapshot has been
  handed to the transport; section 4.5: on a closed connection the caller is released
  with an error.
\<close>

definition send :: "ControllerState \<Rightarrow> outcome" where
  "send cs =
     (if closed cs then (Some NotConnectedError, cs)
      else (None, cs\<lparr>transmitted := transmitted cs @ [snapshot cs]\<rparr>))"

text \<open>Sequencing of two steps: an exception of the first step skips the second.\<close>

definition and_then :: "outcome \<Rightarrow> (ControllerState \<Rightarrow> outcome) \<Rightarrow> outcome" where
  "and_then r f = (case r of (Some e, cs) \<Rightarrow> (Some e, cs) | (None, cs) \<Rightarrow> f cs)"

section \<open>Recording playback: directStateSet\<close>

definition btnsList :: "string list" where
  "btnsList = [''x'', ''y'', ''b'', ''a'', ''plus'', ''minus'', ''home'', ''capture'', ''zl'', ''zr'',
               ''l'', ''r'', ''up'', ''down'', ''left'', ''right'']"

definition lStickList :: "string list" where
  "lStickList = [''lStickUp'', ''lStickDown'', ''lStickL'', ''lStickR'']"

definition rStickList :: "string list" where
  "rStickList = [''rStickUp'', ''rStickDown'', ''rStickL'', ''rStickR'']"

definition directStateSet :: "string \<Rightarrow> ControllerState \<Rightarrow> outcome" where
  "directStateSet btnTrans controller_state =
     (if btnTrans \<in> set btnsList then
        and_then (set_button btnTrans True controller_state) send
      else if btnTrans \<in> set lStickList then
        (if btnTrans = ''lStickDown'' then and_then (set_LeftStick ''down'' controller_state) send
         else if btnTrans = ''lStickUp'' then and_then (set_LeftStick ''up'' controller_state) send
         else if btnTrans = ''lStickL'' then and_then (set_LeftStick ''left'' controller_state) send
         else if btnTrans = ''lStickR'' then and_then (set_LeftStick ''right'' controller_state) send
         else (None, controller_state))
      else if btnTrans \<in> set rStickList then
        (if btnTrans = ''rStickDown'' then and_then (set_RightStick ''down'' controller_state) send
         else if btnTrans = ''rStickUp'' then and_then (set_RightStick ''up'' controller_state) send
         else if btnTrans = ''rStickL'' then and_then (set_RightStick ''left'' controller_state) send
         else if btnTrans = ''rStickR'' then and_then (set_RightStick ''right'' controller_state) send
         else (None, controller_state))
      else (None, controller_state))"

text \<open>
  The direction that \<^verbatim>\<open>directStateSet\<close> hands to \<^verbatim>\<open>_set_stick\<close> for each of the
  eight recorded stick keys, as its branches pair them.
\<close>

definition stick_direction :: "string \<Rightarrow> string" where
  "stick_direction btnTrans =
     (if btnTrans \<in> {''lStickDown'', ''rStickDown''} then ''down''
      else if btnTrans \<in> {''lStickUp'', ''rStickUp''} then ''up''
      else if btnTrans \<in> {''lStickL'', ''rStickL''} then ''left''
      else ''right'')"

section \<open>The mash command\<close>

text \<open>
  Modelled from the spec: \<^verbatim>\<open>button_push\<close> and \<^verbatim>\<open>ControllerState.connect\<close> are not
  among the source files. A push presses the button, commits, releases it and commits
  again; \<^verbatim>\<open>connect\<close> only waits for the connection and leaves the state as it is.
\<close>

definition button_push :: "ControllerState \<Rightarrow> string \<Rightarrow> outcome" where
  "button_push cs button =
     and_then (and_then (and_then (set_button button True cs) send) (set_button button False)) send"

definition connect :: "ControllerState \<Rightarrow> outcome" where
  "connect cs = (None, cs)"

text \<open>
  The loop of \<^verbatim>\<open>mash_button\<close> runs until the user presses enter. The number of
  times \<^verbatim>\<open>user_input.done()\<close> is found false is the user's choice, the argument
  \<open>presses\<close>; \<open>float_ok\<close> tells whether \<^verbatim>\<open>float(interval)\<close> converts the given text
  (it raises a \<^verbatim>\<open>ValueError\<close> otherwise, after the first push).
\<close>

fun mash_loop :: "(string \<Rightarrow> bool) \<Rightarrow> nat \<Rightarrow> ControllerState \<Rightarrow> string \<Rightarrow> string \<Rightarrow> outcome" where
  "mash_loop float_ok 0 controller_state button interval = (None, controller_state)"
| "mash_loop float_ok (Suc presses) controller_state button interval =
     and_then (button_push controller_state button)
       (\<lambda>cs. if float_ok interval then mash_loop float_ok presses cs button interval
             else (Some (ValueError (''could not convert string to float: '' @ interval)), cs))"

definition mash_button :: "(string \<Rightarrow> bool) \<Rightarrow> nat \<Rightarrow> ControllerState \<Rightarrow> string \<Rightarrow> string \<Rightarrow> outcome" where
  "mash_button float_ok presses controller_state button interval =
     and_then (connect controller_state)
       (\<lambda>cs. if button \<notin> set (get_available_buttons (button_state cs)) then
               (Some (ValueError (''Button '' @ button @ '' does not exist on the controller'')), cs)
             else mash_loop float_ok presses cs button interval)"

text \<open>The closure \<^verbatim>\<open>call_mash_button(*args)\<close> of \<^verbatim>\<open>_main\<close>.\<close>

definition call_mash_button :: "(string \<Rightarrow> bool) \<Rightarrow> nat \<Rightarrow> ControllerState \<Rightarrow> string list \<Rightarrow> outcome" where
  "call_mash_button float_ok presses controller_state args =
     (if \<not> length args = 2 then
        (Some (ValueError ''mash_button command requires a button and interval as arguments!''),
         controller_state)
      else mash_button float_ok presses controller_state (args ! 0) (args ! 1))"

section \<open>Flash memory\<close>

text \<open>
  Modelled from the spec: the class \<^verbatim>\<open>FlashMemory\<close> of \<^verbatim>\<open>joycontrol.memory\<close> is not
  among the source files. Sections 3, 4.2 and 8: an addressable byte array seeded once at
  construction, from the given dump or else from the built-in default data (the argument
  \<open>default_data\<close>); a read is served exactly when it lies within bounds.
\<close>

record FlashMemory =
  data :: "byte list"

definition FlashMemory_init :: "byte list \<Rightarrow> byte list option \<Rightarrow> FlashMemory" where
  "FlashMemory_init default_data spi_flash_memory_data =
     (case spi_flash_memory_data of
        None \<Rightarrow> \<lparr>data = default_data\<rparr>
      | Some bytes \<Rightarrow> \<lparr>data = bytes\<rparr>)"

definition FlashMemory_read :: "FlashMemory \<Rightarrow> nat \<Rightarrow> nat \<Rightarrow> error + byte list" where
  "FlashMemory_read m address len =
     (if address + len \<le> length (data m) then Inr (take len (drop address (data m)))
      else Inl OutOfBounds)"

section \<open>Start of the script\<close>

text \<open>The parsed command line of \<^verbatim>\<open>run_controller_cli.py\<close>.\<close>

record Args =
  arg_controller :: string
  arg_log :: "string option"
  arg_device_id :: "string option"
  arg_spi_flash :: "string option"
  arg_reconnect_bt_addr :: "string option"
  arg_nfc :: "string option"

text \<open>
  The first statement of \<^verbatim>\<open>_main\<close>. The test \<^verbatim>\<open>if args.spi_flash\<close> is false for a
  missing option and for the empty text alike.
\<close>

definition main_spi_flash :: "byte list \<Rightarrow> files \<Rightarrow> Args \<Rightarrow> error + FlashMemory" where
  "main_spi_flash default_data fs args =
     (case arg_spi_flash args of
        None \<Rightarrow> Inr (FlashMemory_init default_data None)
      | Some path \<Rightarrow>
          if path = [] then Inr (FlashMemory_init default_data None)
          else (case fs path of
                  None \<Rightarrow> Inl (FileNotFoundError path)
                | Some bytes \<Rightarrow> Inr (FlashMemory_init default_data (Some bytes))))"

text \<open>
  Modelled from the spec: \<^verbatim>\<open>Controller.from_arg\<close> is not among the source files.
  Section 6 and the usage text of the script: one of the three fixed identifiers
  \<^verbatim>\<open>JOYCON_R\<close>, \<^verbatim>\<open>JOYCON_L\<close>, \<^verbatim>\<open>PRO_CONTROLLER\<close>.
\<close>

definition Controller_from_arg :: "string \<Rightarrow> error + Controller" where
  "Controller_from_arg arg =
     (if arg = ''JOYCON_R'' then Inr JOYCON_R
      else if arg = ''JOYCON_L'' then Inr JOYCON_L
      else if arg = ''PRO_CONTROLLER'' then Inr PRO_CONTROLLER
      else Inl (ValueError (''Unknown controller '' @ arg)))"

text \<open>
  Modelled from the spec: the controller state that the protocol of
  \<^verbatim>\<open>controller_protocol_factory(controller, spi_flash)\<close> creates. The variant's button
  names and the stick calibration read from the flash image are the arguments
  \<open>buttons_of\<close> and \<open>calibration\<close>; no button is pressed, no NFC payload is set and
  nothing has been transmitted.
\<close>

definition get_controller_state ::
  "(Controller \<Rightarrow> string list) \<Rightarrow> (FlashMemory \<Rightarrow> StickState \<times> StickState) \<Rightarrow>
   Controller \<Rightarrow> FlashMemory \<Rightarrow> ControllerState" where
  "get_controller_state buttons_of calibration c spi_flash =
     \<lparr>controller = c,
      button_state = \<lparr>available_buttons = buttons_of c, pushed = (\<lambda>b. False)\<rparr>,
      l_stick_state = fst (calibration spi_flash),
      r_stick_state = snd (calibration spi_flash),
      nfc_content = None,
      transmitted = [],
      closed = False\<rparr>"

section \<open>Connection setup: sockets\<close>

text \<open>
  The Bluetooth sockets of \<^verbatim>\<open>create_hid_server\<close> with the settings the function
  touches. A new Python socket is blocking. \<^verbatim>\<open>loop.sock_accept\<close> of asyncio hands
  back the accepted connection after setting it non-blocking.
\<close>

type_synonym address = "string \<times> nat"

record socket =
  blocking :: bool
  reuseaddr :: bool
  bound :: "address option"
  listening :: bool
  peer :: "address option"

definition new_socket :: socket where
  "new_socket = \<lparr>blocking = True, reuseaddr = False, bound = None, listening = False, peer = None\<rparr>"

definition setblocking :: "bool \<Rightarrow> socket \<Rightarrow> socket" where
  "setblocking flag s = s\<lparr>blocking := flag\<rparr>"

definition setsockopt_reuseaddr :: "socket \<Rightarrow> socket" where
  "setsockopt_reuseaddr s = s\<lparr>reuseaddr := True\<rparr>"

definition bind_socket :: "address \<Rightarrow> socket \<Rightarrow> socket" where
  "bind_socket a s = s\<lparr>bound := Some a\<rparr>"

definition listen :: "socket \<Rightarrow> socket" where
  "listen s = s\<lparr>listening := True\<rparr>"

definition connect_socket :: "address \<Rightarrow> socket \<Rightarrow> socket" where
  "connect_socket a s = s\<lparr>peer := Some a\<rparr>"

definition sock_accept :: "socket \<Rightarrow> address \<Rightarrow> socket \<times> address" where
  "sock_accept sock from_address = (setblocking False (new_socket\<lparr>peer := Some from_address\<rparr>), from_address)"

definition BDADDR_ANY :: string where
  "BDADDR_ANY = ''00:00:00:00:00:00''"

text \<open>
  What the Bluetooth side decides: the address of the local adapter, whether the first
  \<^verbatim>\<open>bind\<close> finds the ports taken (the bluez input plugin) and whether the second one
  does after the restart, the peers that connect to the two listening sockets, and for
  a reconnection whether the console can be reached.
\<close>

record bluetooth =
  adapter_address :: string
  ports_taken :: bool
  ports_taken_after_restart :: bool
  ctl_peer :: address
  itr_peer :: address
  reachable :: "string \<Rightarrow> bool"

record HidDevice =
  hid_address :: string
  powered :: bool
  pairable :: bool
  discoverable :: bool

record channels =
  client_ctl :: socket
  client_itr :: socket
  listening_ctl :: "socket option"
  listening_itr :: "socket option"
  hid :: "HidDevice option"
  bluetooth_restarted :: bool

text \<open>
  Lines 44 to 110 of \<^verbatim>\<open>create_hid_server\<close>: the initial pairing when
  \<^verbatim>\<open>reconnect_bt_addr\<close> is \<^verbatim>\<open>None\<close>, the reconnection otherwise.
\<close>

definition initial_pairing :: "bluetooth \<Rightarrow> nat \<Rightarrow> nat \<Rightarrow> error + channels" where
  "initial_pairing bt ctl_psm itr_psm =
     (let ctl_sock = setsockopt_reuseaddr (setblocking False new_socket);
          itr_sock = setsockopt_reuseaddr (setblocking False new_socket);
          device = \<lparr>hid_address = adapter_address bt, powered = False, pairable = False,
                    discoverable = False\<rparr>
      in if ports_taken bt \<and> ports_taken_after_restart bt then Inl OSError
         else
           let ctl_sock = (if ports_taken bt then bind_socket (BDADDR_ANY, ctl_psm) ctl_sock
                           else bind_socket (hid_address device, ctl_psm) ctl_sock);
               itr_sock = (if ports_taken bt then bind_socket (BDADDR_ANY, itr_psm) itr_sock
                           else bind_socket (hid_address device, itr_psm) itr_sock);
               ctl_sock = listen ctl_sock;
               itr_sock = listen itr_sock;
               device = device\<lparr>powered := True, pairable := True, discoverable := True\<rparr>;
               (client_ctl, ctl_address) = sock_accept ctl_sock (ctl_peer bt);
               (client_itr, itr_address) = sock_accept itr_sock (itr_peer bt)
           in if \<not> fst ctl_address = fst itr_address then Inl AssertionError
              else Inr \<lparr>client_ctl = client_ctl, client_itr = client_itr,
                        listening_ctl = Some ctl_sock, listening_itr = Some itr_sock,
                        hid = Some (device\<lparr>discoverable := False, pairable := False\<rparr>),
                        bluetooth_restarted = ports_taken bt\<rparr>)"

definition reconnection :: "bluetooth \<Rightarrow> nat \<Rightarrow> nat \<Rightarrow> string \<Rightarrow> error + channels" where
  "reconnection bt ctl_psm itr_psm reconnect_bt_addr =
     (let client_ctl = new_socket;
          client_itr = new_socket
      in if \<not> reachable bt reconnect_bt_addr then Inl OSError
         else
           let client_ctl = connect_socket (reconnect_bt_addr, ctl_psm) client_ctl;
               client_itr = connect_socket (reconnect_bt_addr, itr_psm) client_itr;
               client_ctl = setblocking False client_ctl;
               client_itr = setblocking False client_itr
           in Inr \<lparr>client_ctl = client_ctl, client_itr = client_itr,
                    listening_ctl = None, listening_itr = None, hid = None,
                    bluetooth_restarted = False\<rparr>)"

definition establish :: "bluetooth \<Rightarrow> nat \<Rightarrow> nat \<Rightarrow> string option \<Rightarrow> error + channels" where
  "establish bt ctl_psm itr_psm reconnect_bt_addr =
     (case reconnect_bt_addr of
        None \<Rightarrow> initial_pairing bt ctl_psm itr_psm
      | Some a \<Rightarrow> reconnection bt ctl_psm itr_psm a)"

section \<open>Connection setup: first contact\<close>

text \<open>
  After the channels are established \<^verbatim>\<open>create_hid_server\<close> builds the transport
  over the two client sockets, starts \<^verbatim>\<open>_send_empty_input_reports\<close> as a task of its
  own with \<^verbatim>\<open>asyncio.ensure_future\<close> and awaits
  \<^verbatim>\<open>protocol.wait_for_output_report()\<close>. From here on the event loop interleaves
  three activities; which one runs next is the schedule, a list of events:
  the sender task is resumed (at its start, or when its \<^verbatim>\<open>asyncio.sleep(1)\<close> is over),
  an output report of the console arrives and is given to the protocol, or the main
  task is resumed. The transport keeps the frames of both directions in the order they
  passed, as the capture file does.
\<close>

datatype frame = EmptyInputReport | OutputReport

datatype event = SenderResumes | OutputReportArrives | MainResumes

text \<open>
  The sender task is either scheduled and not yet started, or suspended in the sleep of
  iteration \<open>i\<close> of \<^verbatim>\<open>for i in range(10)\<close>, or finished.
\<close>

datatype sender_pc = Scheduled | Sleeping nat | Finished

datatype main_pc = AwaitingOutputReport | HasReturned

record L2CAP_Transport =
  itr_sock :: socket
  ctl_sock :: socket
  traffic :: "frame list"

record hid_server =
  transport :: L2CAP_Transport
  sender_task :: sender_pc
  main_task :: main_pc
  data_received :: bool

definition L2CAP_Transport_init :: "socket \<Rightarrow> socket \<Rightarrow> L2CAP_Transport" where
  "L2CAP_Transport_init client_itr_sock client_ctl_sock =
     \<lparr>itr_sock = client_itr_sock, ctl_sock = client_ctl_sock, traffic = []\<rparr>"

definition transport_write :: "frame \<Rightarrow> hid_server \<Rightarrow> hid_server" where
  "transport_write f s = s\<lparr>transport := (transport s)\<lparr>traffic := traffic (transport s) @ [f]\<rparr>\<rparr>"

text \<open>
  One resumption of \<^verbatim>\<open>_send_empty_input_reports\<close>: the next iteration writes the empty
  report and goes to sleep; after the sleep of the tenth iteration the loop is over.
\<close>

definition send_empty_input_reports :: "hid_server \<Rightarrow> hid_server" where
  "send_empty_input_reports s =
     (case sender_task s of
        Scheduled \<Rightarrow> (transport_write EmptyInputReport s)\<lparr>sender_task := Sleeping 0\<rparr>
      | Sleeping i \<Rightarrow>
          if Suc i < 10 then (transport_write EmptyInputReport s)\<lparr>sender_task := Sleeping (Suc i)\<rparr>
          else s\<lparr>sender_task := Finished\<rparr>
      | Finished \<Rightarrow> s)"

text \<open>
  Modelled from the spec: \<^verbatim>\<open>protocol.wait_for_output_report\<close> and the protocol's
  handling of a received report are not among the source files. The protocol notes that
  an output report was received; the wait is over once that has happened.
\<close>

definition report_received :: "hid_server \<Rightarrow> hid_server" where
  "report_received s =
     s\<lparr>transport := (transport s)\<lparr>traffic := traffic (transport s) @ [OutputReport]\<rparr>,
       data_received := True\<rparr>"

definition wait_for_output_report :: "hid_server \<Rightarrow> hid_server" where
  "wait_for_output_report s =
     (if main_task s = AwaitingOutputReport \<and> data_received s then s\<lparr>main_task := HasReturned\<rparr>
      else s)"

fun step :: "event \<Rightarrow> hid_server \<Rightarrow> hid_server" where
  "step SenderResumes s = send_empty_input_reports s"
| "step OutputReportArrives s = report_received s"
| "step MainResumes s = wait_for_output_report s"

fun run :: "event list \<Rightarrow> hid_server \<Rightarrow> hid_server" where
  "run [] s = s"
| "run (e # es) s = run es (step e s)"

text \<open>
  The state in which the main task returns, if the schedule lets it return. The
  cancellation of the sender task is inside a string literal in the source, so nothing
  is done to the sender task here.
\<close>

fun run_until_return :: "event list \<Rightarrow> hid_server \<Rightarrow> hid_server option" where
  "run_until_return [] s = (if main_task s = HasReturned then Some s else None)"
| "run_until_return (e # es) s =
     (if main_task s = HasReturned then Some s else run_until_return es (step e s))"

text \<open>The server right after line 118 has started the sender and begun to wait.\<close>

definition connection_made :: "channels \<Rightarrow> hid_server" where
  "connection_made ch =
     \<lparr>transport = L2CAP_Transport_init (client_itr ch) (client_ctl ch),
      sender_task = Scheduled,
      main_task = AwaitingOutputReport,
      data_received = False\<rparr>"

datatype 'a completion = Raised error | Pending | Returned 'a

text \<open>
  \<^verbatim>\<open>create_hid_server\<close>: raises what the connection setup raises, is still waiting
  when the schedule ends before the console has sent anything, and returns the transport
  and the protocol otherwise.
\<close>

definition create_hid_server ::
  "bluetooth \<Rightarrow> event list \<Rightarrow> nat \<Rightarrow> nat \<Rightarrow> string option \<Rightarrow> hid_server completion" where
  "create_hid_server bt schedule ctl_psm itr_psm reconnect_bt_addr =
     (case establish bt ctl_psm itr_psm reconnect_bt_addr of
        Inl e \<Rightarrow> Raised e
      | Inr ch \<Rightarrow>
          (case run_until_return schedule (connection_made ch) of
             None \<Rightarrow> Pending
           | Some s \<Rightarrow> Returned s))"

text \<open>Frames of one kind in a traffic log, and the log from the first output report on.\<close>

definition empty_reports :: "frame list \<Rightarrow> nat" where
  "empty_reports fs = length (filter (\<lambda>f. f = EmptyInputReport) fs)"

definition after_first_output_report :: "frame list \<Rightarrow> frame list" where
  "after_first_output_report fs = dropWhile (\<lambda>f. f \<noteq> OutputReport) fs"

section \<open>The script up to the command loop\<close>

record session =
  spi_flash :: FlashMemory
  server :: hid_server
  controller_state :: ControllerState

text \<open>
  \<^verbatim>\<open>_main\<close> up to the call of \<^verbatim>\<open>cli.run()\<close>: the flash image, the variant, the
  connection (with the fixed ports 17 and 19), the controller state of the protocol, and
  the NFC content of the \<^verbatim>\<open>--nfc\<close> option.
\<close>

definition main ::
  "byte list \<Rightarrow> (Controller \<Rightarrow> string list) \<Rightarrow> (FlashMemory \<Rightarrow> StickState \<times> StickState) \<Rightarrow>
   files \<Rightarrow> bluetooth \<Rightarrow> event list \<Rightarrow> Args \<Rightarrow> session completion" where
  "main default_data buttons_of calibration fs bt schedule args =
     (case main_spi_flash default_data fs args of
        Inl e \<Rightarrow> Raised e
      | Inr flash \<Rightarrow>
     (case Controller_from_arg (arg_controller args) of
        Inl e \<Rightarrow> Raised e
      | Inr c \<Rightarrow>
     (case create_hid_server bt schedule 17 19 (arg_reconnect_bt_addr args) of
        Raised e \<Rightarrow> Raised e
      | Pending \<Rightarrow> Pending
      | Returned srv \<Rightarrow>
          (let cs = get_controller_state buttons_of calibration c flash in
           case arg_nfc args of
             None \<Rightarrow> Returned \<lparr>spi_flash = flash, server = srv, controller_state = cs\<rparr>
           | Some path \<Rightarrow>
               (case nfc fs cs [path] of
                  (Some e, cs') \<Rightarrow> Raised e
                | (None, cs') \<Rightarrow> Returned \<lparr>spi_flash = flash, server = srv, controller_state = cs'\<rparr>)))))"

text \<open>
  Modelled from the spec: the protocol's handling of the SPI flash read subcommand is not
  among the source files. Section 4.5: the read is delegated to the flash memory that
  the protocol was created with, with the address and the length of the request.
\<close>

definition spi_flash_read :: "session \<Rightarrow> nat \<Rightarrow> nat \<Rightarrow> error + byte list" where
  "spi_flash_read sess address len = FlashMemory_read (spi_flash sess) address len"

section \<open>Scripts and commands\<close>

text \<open>
  \<^verbatim>\<open>friend_remover\<close>: only for the Pro Controller, then fifty rounds of button pushes
  (the sleeps between them do not touch the state).
\<close>

fun friend_remover_loop :: "nat \<Rightarrow> ControllerState \<Rightarrow> outcome" where
  "friend_remover_loop 0 cs = (None, cs)"
| "friend_remover_loop (Suc n) cs =
     and_then (and_then (and_then (and_then (and_then (and_then
       (button_push cs ''a'')
       (\<lambda>cs. button_push cs ''down''))
       (\<lambda>cs. button_push cs ''a''))
       (\<lambda>cs. button_push cs ''a''))
       (\<lambda>cs. button_push cs ''a''))
       (\<lambda>cs. button_push cs ''a''))
       (friend_remover_loop n)"

definition friend_remover :: "ControllerState \<Rightarrow> outcome" where
  "friend_remover cs =
     (if get_controller cs \<noteq> PRO_CONTROLLER then
        (Some (ValueError ''This script only works with the Pro Controller!''), cs)
      else and_then (connect cs) (friend_remover_loop 50))"

text \<open>
  The operations that work on the controller state after the setup: the commands
  \<^verbatim>\<open>mash\<close>, \<^verbatim>\<open>nfc\<close> and \<^verbatim>\<open>remove\<close> that \<^verbatim>\<open>_main\<close> adds to the command line
  interface, and a playback step. A mash command comes with the number of pushes before
  the user stops it.
\<close>

datatype command =
    Mash "string list" nat
  | Nfc "string list"
  | Remove
  | Playback string

fun perform :: "(string \<Rightarrow> bool) \<Rightarrow> files \<Rightarrow> command \<Rightarrow> ControllerState \<Rightarrow> outcome" where
  "perform float_ok fs (Mash args presses) cs = call_mash_button float_ok presses cs args"
| "perform float_ok fs (Nfc args) cs = nfc fs cs args"
| "perform float_ok fs Remove cs = friend_remover cs"
| "perform float_ok fs (Playback btnTrans) cs = directStateSet btnTrans cs"

text \<open>
  Modelled from the spec: the command loop \<^verbatim>\<open>ControllerCLI.run\<close> is not among the
  source files. Section 7: a usage error is reported to the caller and the connection
  continues, so the next command works on the state as the failed one left it.
\<close>

fun cli_run :: "(string \<Rightarrow> bool) \<Rightarrow> files \<Rightarrow> command list \<Rightarrow> ControllerState \<Rightarrow> ControllerState" where
  "cli_run float_ok fs [] cs = cs"
| "cli_run float_ok fs (c # cmds) cs = cli_run float_ok fs cmds (snd (perform float_ok fs c cs))"

section \<open>Invariants of the first contact\<close>

text \<open>
  The point of its loop at which the sender task stands after it has been resumed \<open>n\<close>
  times: the first ten resumptions each write a report and go to sleep, the eleventh
  finds the loop over. The number of resumptions of the sender task in a schedule.
\<close>

definition sender_after :: "nat \<Rightarrow> sender_pc" where
  "sender_after n = (if n = 0 then Scheduled else if n \<le> 10 then Sleeping (n - 1) else Finished)"

definition resumptions :: "event list \<Rightarrow> nat" where
  "resumptions schedule = length (filter (\<lambda>e. e = SenderResumes) schedule)"

text \<open>
  The invariant of the main task: it has returned only after a received output report,
  which is then part of the traffic.
\<close>

definition contact_inv :: "hid_server \<Rightarrow> bool" where
  "contact_inv s = ((main_task s = HasReturned \<longrightarrow> data_received s) \<and>
                    (data_received s \<longrightarrow> OutputReport \<in> set (traffic (transport s))))"

section \<open>Example data\<close>

text \<open>
  A Pro Controller state, two dump files and a console that pairs from one address, for
  evaluating the functions on concrete inputs.
\<close>

definition pro_state :: ControllerState where
  "pro_state =
     \<lparr>controller = PRO_CONTROLLER,
      button_state = \<lparr>available_buttons = [''a'', ''b'', ''x'', ''y'', ''down'', ''home''],
                      pushed = (\<lambda>b. False)\<rparr>,
      l_stick_state = \<lparr>h_stick = 2048, v_stick = 2048, h_center = 2048, h_min = 512, h_max = 3584,
                        v_center = 2048, v_min = 512, v_max = 3584\<rparr>,
      r_stick_state = \<lparr>h_stick = 2048, v_stick = 2048, h_center = 2048, h_min = 512, h_max = 3584,
                        v_center = 2048, v_min = 512, v_max = 3584\<rparr>,
      nfc_content = Some [7, 7],
      transmitted = [],
      closed = False\<rparr>"

definition dump_files :: files where
  "dump_files = [''amiibo.bin'' \<mapsto> [1, 2, 3], ''flash.bin'' \<mapsto> [255, 0, 16, 32]]"

definition switch_bt :: bluetooth where
  "switch_bt =
     \<lparr>adapter_address = ''B8:27:EB:00:00:01'', ports_taken = False,
      ports_taken_after_restart = False,
      ctl_peer = (''98:B6:E9:00:00:02'', 17), itr_peer = (''98:B6:E9:00:00:02'', 19),
      reachable = (\<lambda>a. a = ''98:B6:E9:00:00:02'')\<rparr>"

definition switch_channels :: channels where
  "switch_channels =
     \<lparr>client_ctl = setblocking False (new_socket\<lparr>peer := Some (''98:B6:E9:00:00:02'', 17)\<rparr>),
      client_itr = setblocking False (new_socket\<lparr>peer := Some (''98:B6:E9:00:00:02'', 19)\<rparr>),
      listening_ctl = None, listening_itr = None, hid = None, bluetooth_restarted = False\<rparr>"

text \<open>
  A table of button names, a calibration that ignores the flash image, and a command
  line that names the Pro Controller, a flash dump and an NFC dump.
\<close>

definition pro_buttons :: "Controller \<Rightarrow> string list" where
  "pro_buttons c = (if c = PRO_CONTROLLER then [''a'', ''b'', ''x'', ''y'', ''down'', ''home''] else [''sl'', ''sr''])"

definition centered :: "FlashMemory \<Rightarrow> StickState \<times> StickState" where
  "centered m =
     (\<lparr>h_stick = 2048, v_stick = 2048, h_center = 2048, h_min = 512, h_max = 3584,
       v_center = 2048, v_min = 512, v_max = 3584\<rparr>,
      \<lparr>h_stick = 2048, v_stick = 2048, h_center = 2048, h_min = 512, h_max = 3584,
       v_center = 2048, v_min = 512, v_max = 3584\<rparr>)"

definition cli_args :: Args where
  "cli_args =
     \<lparr>arg_controller = ''PRO_CONTROLLER'', arg_log = None, arg_device_id = None,
      arg_spi_flash = Some ''flash.bin'', arg_reconnect_bt_addr = None,
      arg_nfc = Some ''amiibo.bin''\<rparr>"

text \<open>
  A calibration that reads the flash image: the centers of the two sticks are its first
  two bytes.
\<close>

definition stick_at :: "nat \<Rightarrow> StickState" where
  "stick_at c = \<lparr>h_stick = c, v_stick = c, h_center = c, h_min = 0, h_max = 4095,
                 v_center = c, v_min = 0, v_max = 4095\<rparr>"

definition first_bytes :: "FlashMemory \<Rightarrow> StickState \<times> StickState" where
  "first_bytes m =
     (case data m of
        a # b # rest \<Rightarrow> (stick_at (unat a), stick_at (unat b))
      | _ \<Rightarrow> (stick_at 0, stick_at 0))"

section \<open>Properties: frame lemmas\<close>

lemma and_then_None [simp]: "and_then (None, cs) f = f cs"
  by (simp add: and_then_def)

lemma and_then_Some [simp]: "and_then (Some e, cs) f = (Some e, cs)"
  by (simp add: and_then_def)

lemma and_then_controller:
  assumes "controller (snd r) = c" and "\<And>cs. controller cs = c \<Longrightarrow> controller (snd (f cs)) = c"
  shows "controller (snd (and_then r f)) = c"
proof (cases r)
  case (Pair e cs)
  with assms show ?thesis by (cases e) auto
qed

lemma set_button_controller: "controller (snd (set_button b p cs)) = controller cs"
  by (simp add: set_button_def)

lemma send_controller: "controller (snd (send cs)) = controller cs"
  by (simp add: send_def)

lemma set_LeftStick_controller: "controller (snd (set_LeftStick d cs)) = controller cs"
  by (simp add: set_LeftStick_def split: sum.splits)

lemma set_RightStick_controller: "controller (snd (set_RightStick d cs)) = controller cs"
  by (simp add: set_RightStick_def split: sum.splits)

lemma button_push_controller: "controller (snd (button_push cs b)) = controller cs"
  unfolding button_push_def
  by (intro and_then_controller) (simp_all add: set_button_controller send_controller)

lemma mash_loop_controller:
  "controller (snd (mash_loop float_ok n cs b i)) = controller cs"
proof (induction n arbitrary: cs)
  case 0
  show ?case by simp
next
  case (Suc n)
  show ?case
    unfolding mash_loop.simps
    by (rule and_then_controller) (simp_all add: button_push_controller Suc)
qed

lemma mash_button_controller:
  "controller (snd (mash_button float_ok n cs b i)) = controller cs"
  by (simp add: mash_button_def connect_def mash_loop_controller)

lemma call_mash_button_controller:
  "controller (snd (call_mash_button float_ok n cs args)) = controller cs"
  by (simp add: call_mash_button_def mash_button_controller)

lemma friend_remover_loop_controller:
  "controller (snd (friend_remover_loop n cs)) = controller cs"
proof (induction n arbitrary: cs)
  case 0
  show ?case by simp
next
  case (Suc n)
  show ?case
    unfolding friend_remover_loop.simps
    by (intro and_then_controller) (simp_all add: button_push_controller Suc)
qed

lemma friend_remover_controller: "controller (snd (friend_remover cs)) = controller cs"
  by (simp add: friend_remover_def connect_def friend_remover_loop_controller)

lemma set_nfc_controller: "controller (snd (set_nfc fs cs path)) = controller cs"
  by (simp add: set_nfc_def ControllerState_set_nfc_def split: option.splits)

lemma nfc_controller: "controller (snd (nfc fs cs args)) = controller cs"
  by (simp add: nfc_def ControllerState_set_nfc_def set_nfc_controller)

lemma directStateSet_controller: "controller (snd (directStateSet b cs)) = controller cs"
proof -
  have btn: "controller (snd (and_then (set_button b True cs) send)) = controller cs"
    by (rule and_then_controller) (simp_all add: set_button_controller send_controller)
  have l: "\<And>d. controller (snd (and_then (set_LeftStick d cs) send)) = controller cs"
    by (rule and_then_controller) (simp_all add: set_LeftStick_controller send_controller)
  have r: "\<And>d. controller (snd (and_then (set_RightStick d cs) send)) = controller cs"
    by (rule and_then_controller) (simp_all add: set_RightStick_controller send_controller)
  show ?thesis
    unfolding directStateSet_def using btn l r by simp
qed

lemma perform_controller: "controller (snd (perform float_ok fs c cs)) = controller cs"
  by (cases c)
    (simp_all add: call_mash_button_controller nfc_controller friend_remover_controller
       directStateSet_controller)

lemma cli_run_controller: "controller (cli_run float_ok fs cmds cs) = controller cs"
  by (induction cmds arbitrary: cs) (simp_all add: perform_controller)

lemma sender_after_step:
  assumes "sender_task s = sender_after n" and "empty_reports (traffic (transport s)) = min 10 n"
  shows "sender_task (step e s) = sender_after (n + resumptions [e]) \<and>
         empty_reports (traffic (transport (step e s))) = min 10 (n + resumptions [e])"
proof (cases e)
  case SenderResumes
  show ?thesis
  proof (cases "n = 0")
    case True
    with assms SenderResumes show ?thesis
      by (simp add: sender_after_def resumptions_def send_empty_input_reports_def
          transport_write_def empty_reports_def)
  next
    case False
    show ?thesis
    proof (cases "n \<le> 10")
      case True
      with False assms SenderResumes show ?thesis
        by (auto simp: sender_after_def resumptions_def send_empty_input_reports_def
            transport_write_def empty_reports_def)
    next
      case False
      with assms SenderResumes show ?thesis
        by (simp add: sender_after_def resumptions_def send_empty_input_reports_def)
    qed
  qed
next
  case OutputReportArrives
  with assms show ?thesis
    by (simp add: resumptions_def report_received_def empty_reports_def)
next
  case MainResumes
  with assms show ?thesis
    by (simp add: resumptions_def wait_for_output_report_def)
qed

lemma resumptions_Cons: "resumptions (e # es) = resumptions [e] + resumptions es"
  by (simp add: resumptions_def)

lemma sender_after_run:
  "sender_task s = sender_after n \<Longrightarrow> empty_reports (traffic (transport s)) = min 10 n \<Longrightarrow>
     sender_task (run es s) = sender_after (n + resumptions es) \<and>
     empty_reports (traffic (transport (run es s))) = min 10 (n + resumptions es)"
proof (induction es arbitrary: s n)
  case Nil
  then show ?case by (simp add: resumptions_def)
next
  case (Cons e es)
  from sender_after_step [OF Cons.prems]
  have "sender_task (step e s) = sender_after (n + resumptions [e])"
    and "empty_reports (traffic (transport (step e s))) = min 10 (n + resumptions [e])"
    by simp_all
  from Cons.IH [OF this] show ?case
    by (simp add: resumptions_Cons [of e es] add.assoc)
qed

lemma contact_inv_step: "contact_inv s \<Longrightarrow> contact_inv (step e s)"
  by (cases e; cases "sender_task s")
    (auto simp: contact_inv_def send_empty_input_reports_def
       transport_write_def report_received_def wait_for_output_report_def)

lemma run_until_return_inv:
  "contact_inv s \<Longrightarrow> run_until_return es s = Some s' \<Longrightarrow> contact_inv s' \<and> main_task s' = HasReturned"
proof (induction es arbitrary: s)
  case Nil
  then show ?case by (simp split: if_splits)
next
  case (Cons e es)
  show ?case
  proof (cases "main_task s = HasReturned")
    case True
    with Cons.prems show ?thesis by simp
  next
    case False
    with Cons.prems have "run_until_return es (step e s) = Some s'" by simp
    moreover have "contact_inv (step e s)" using Cons.prems(1) by (rule contact_inv_step)
    ultimately show ?thesis using Cons.IH by blast
  qed
qed

lemma returns_after_arrival:
  "main_task s = AwaitingOutputReport \<Longrightarrow> run_until_return es s = Some s' \<Longrightarrow>
     \<exists>before after. es = before @ MainResumes # after \<and>
        (data_received s \<or> OutputReportArrives \<in> set before)"
proof (induction es arbitrary: s)
  case Nil
  then show ?case by simp
next
  case (Cons e es)
  from Cons.prems have r: "run_until_return es (step e s) = Some s'" by simp
  show ?case
  proof (cases "e = MainResumes \<and> data_received s")
    case True
    then have "e # es = [] @ MainResumes # es \<and> data_received s" by simp
    then show ?thesis by blast
  next
    case False
    with Cons.prems(1) have m: "main_task (step e s) = AwaitingOutputReport"
      by (cases e; cases "sender_task s")
        (auto simp: send_empty_input_reports_def transport_write_def report_received_def
           wait_for_output_report_def)
    from Cons.IH [OF m r] obtain before after where
      es: "es = before @ MainResumes # after"
      and d: "data_received (step e s) \<or> OutputReportArrives \<in> set before" by blast
    have "data_received (step e s) \<Longrightarrow> data_received s \<or> e = OutputReportArrives"
      by (cases e; cases "sender_task s")
        (auto simp: send_empty_input_reports_def transport_write_def report_received_def
           wait_for_output_report_def split: if_splits)
    with d have "data_received s \<or> OutputReportArrives \<in> set (e # before)" by auto
    moreover from es have "e # es = (e # before) @ MainResumes # after" by simp
    ultimately show ?thesis by blast
  qed
qed

lemma contact_inv_connection_made: "contact_inv (connection_made ch)"
  by (simp add: contact_inv_def connection_made_def)

lemma step_sockets:
  "itr_sock (transport (step e s)) = itr_sock (transport s) \<and>
   ctl_sock (transport (step e s)) = ctl_sock (transport s)"
  by (cases e; cases "sender_task s")
    (auto simp: send_empty_input_reports_def
       transport_write_def report_received_def wait_for_output_report_def)

lemma run_until_return_sockets:
  "run_until_return es s = Some s' \<Longrightarrow>
     itr_sock (transport s') = itr_sock (transport s) \<and> ctl_sock (transport s') = ctl_sock (transport s)"
  by (induction es arbitrary: s) (auto simp: step_sockets split: if_splits)

lemma create_hid_server_Returned:
  "create_hid_server bt schedule c i r = Returned s \<Longrightarrow>
     \<exists>ch. establish bt c i r = Inr ch \<and> run_until_return schedule (connection_made ch) = Some s"
  by (auto simp: create_hid_server_def split: sum.splits option.splits)

lemma initial_pairing_Inr:
  "initial_pairing bt c i = Inr ch \<Longrightarrow>
     fst (ctl_peer bt) = fst (itr_peer bt) \<and>
     client_ctl ch = setblocking False (new_socket\<lparr>peer := Some (ctl_peer bt)\<rparr>) \<and>
     client_itr ch = setblocking False (new_socket\<lparr>peer := Some (itr_peer bt)\<rparr>) \<and>
     (\<exists>s. listening_ctl ch = Some s \<and> \<not> blocking s) \<and>
     (\<exists>s. listening_itr ch = Some s \<and> \<not> blocking s)"
  by (auto simp: initial_pairing_def Let_def sock_accept_def setblocking_def listen_def
      bind_socket_def setsockopt_reuseaddr_def split: if_splits)

lemma reconnection_Inr:
  "reconnection bt c i a = Inr ch \<Longrightarrow>
     client_ctl ch = setblocking False (connect_socket (a, c) new_socket) \<and>
     client_itr ch = setblocking False (connect_socket (a, i) new_socket) \<and>
     listening_ctl ch = None \<and> listening_itr ch = None"
  by (auto simp: reconnection_def Let_def split: if_splits)

lemma initial_pairing_mismatch:
  "fst (ctl_peer bt) \<noteq> fst (itr_peer bt) \<Longrightarrow>
     initial_pairing bt c i = (if ports_taken bt \<and> ports_taken_after_restart bt then Inl OSError else Inl AssertionError)"
  by (auto simp: initial_pairing_def Let_def sock_accept_def split: if_splits)

section \<open>Properties of the nfc command\<close>

text \<open>
  Claim C7. The nfc command raises a \<^verbatim>\<open>ValueError\<close> and leaves the controller state,
  with its NFC payload, as it was when the emulated variant is Joy-Con Left or when the
  command has no argument. Only for another variant and with an argument does the
  command change the payload, and then it raises nothing.
\<close>

theorem nfc_command_errors:
  "(get_controller cs = JOYCON_L \<or> args = [] \<longrightarrow>
      (\<exists>m. nfc fs cs args = (Some (ValueError m), cs))) \<and>
   (nfc_content (snd (nfc fs cs args)) \<noteq> nfc_content cs \<longrightarrow>
      get_controller cs \<noteq> JOYCON_L \<and> args \<noteq> [] \<and> fst (nfc fs cs args) = None)"
  by (auto simp: nfc_def set_nfc_def ControllerState_set_nfc_def split: option.splits)

theorem nfc_command_errors_witness:
  "(\<exists>m. nfc dump_files (pro_state\<lparr>controller := JOYCON_L\<rparr>) [''amiibo.bin'']
        = (Some (ValueError m), pro_state\<lparr>controller := JOYCON_L\<rparr>)) \<and>
   (\<exists>m. nfc dump_files pro_state [] = (Some (ValueError m), pro_state)) \<and>
   nfc_content (snd (nfc dump_files pro_state [''remove''])) \<noteq> nfc_content pro_state \<and>
   get_controller pro_state \<noteq> JOYCON_L \<and>
   fst (nfc dump_files pro_state [''remove'']) = None"
  using nfc_command_errors [of "pro_state\<lparr>controller := JOYCON_L\<rparr>" "[''amiibo.bin'']" dump_files]
    nfc_command_errors [of pro_state "[]" dump_files]
    nfc_command_errors [of pro_state "[''remove'']" dump_files]
  by (simp add: get_controller_def pro_state_def nfc_def ControllerState_set_nfc_def)

text \<open>
  Claim C5. Setting the NFC content from a dump file stores exactly the bytes of the
  file, all of them and unchanged, and \<^verbatim>\<open>nfc remove\<close> sets the payload to none; the
  resulting state differs from the old one in the NFC payload only. The command reaches
  both operations for the variants that can hold NFC content.
\<close>

theorem nfc_payload_set_and_removed:
  "(fs file_path = Some content \<longrightarrow>
      set_nfc fs cs file_path = (None, cs\<lparr>nfc_content := Some content\<rparr>)) \<and>
   (get_controller cs \<noteq> JOYCON_L \<and> file_path \<noteq> ''remove'' \<and> fs file_path = Some content \<longrightarrow>
      nfc fs cs [file_path] = (None, cs\<lparr>nfc_content := Some content\<rparr>)) \<and>
   (get_controller cs \<noteq> JOYCON_L \<longrightarrow>
      nfc fs cs [''remove''] = (None, cs\<lparr>nfc_content := None\<rparr>))"
  by (simp add: nfc_def set_nfc_def ControllerState_set_nfc_def)

theorem nfc_payload_set_and_removed_witness:
  "set_nfc dump_files pro_state ''amiibo.bin'' = (None, pro_state\<lparr>nfc_content := Some [1, 2, 3]\<rparr>) \<and>
   nfc dump_files pro_state [''amiibo.bin''] = (None, pro_state\<lparr>nfc_content := Some [1, 2, 3]\<rparr>) \<and>
   nfc dump_files pro_state [''remove''] = (None, pro_state\<lparr>nfc_content := None\<rparr>)"
  using nfc_payload_set_and_removed [of dump_files "''amiibo.bin''" "[1, 2, 3]" pro_state]
  by (simp add: dump_files_def get_controller_def pro_state_def)

section \<open>Properties of the connection setup\<close>

text \<open>The example console pairs, and reconnects, as evaluated here.\<close>

lemma switch_returns:
  "create_hid_server switch_bt [SenderResumes, OutputReportArrives, MainResumes] 17 19 None =
     Returned ((connection_made switch_channels)
        \<lparr>transport := (transport (connection_made switch_channels))\<lparr>traffic := [EmptyInputReport, OutputReport]\<rparr>,
          sender_task := Sleeping 0, main_task := HasReturned, data_received := True\<rparr>)"
  by (simp add: create_hid_server_def establish_def initial_pairing_def switch_bt_def Let_def
      sock_accept_def switch_channels_def connection_made_def L2CAP_Transport_init_def
      send_empty_input_reports_def transport_write_def report_received_def
      wait_for_output_report_def setblocking_def new_socket_def)

lemma switch_reconnects:
  "establish switch_bt 17 19 (Some ''98:B6:E9:00:00:02'') = Inr switch_channels"
  by (simp add: establish_def reconnection_def switch_bt_def switch_channels_def Let_def
      connect_socket_def setblocking_def new_socket_def)

text \<open>
  Claim C1, as stated, fails: the sender of the empty input reports is not stopped when
  the first output report arrives. In the schedule below the sender writes a report, the
  console's output report arrives, \<^verbatim>\<open>create_hid_server\<close> returns, and the sender,
  resumed after its sleep, writes another empty input report.
\<close>

theorem empty_report_after_first_output_report:
  "main_task (run [SenderResumes, OutputReportArrives, MainResumes, SenderResumes]
       (connection_made switch_channels)) = HasReturned \<and>
   traffic (transport (run [SenderResumes, OutputReportArrives, MainResumes, SenderResumes]
       (connection_made switch_channels))) = [EmptyInputReport, OutputReport, EmptyInputReport] \<and>
   \<not> empty_reports (after_first_output_report (traffic (transport
       (run [SenderResumes, OutputReportArrives, MainResumes, SenderResumes]
          (connection_made switch_channels))))) = 0"
  by (simp add: connection_made_def L2CAP_Transport_init_def send_empty_input_reports_def
      transport_write_def report_received_def wait_for_output_report_def empty_reports_def
      after_first_output_report_def)

text \<open>
  Claim C1, amended. The sender task emits an empty input report at each of its first
  ten resumptions and then ends by itself: after any schedule the traffic holds as many
  empty input reports as the sender task was resumed, up to ten, and the task is finished
  exactly when it was resumed an eleventh time. Nothing else counts: the arrival of an
  output report and the return of \<^verbatim>\<open>create_hid_server\<close> leave the sender task as it
  is, so reports are also written after the first output report.
\<close>

theorem empty_reports_bounded_not_cancelled:
  "empty_reports (traffic (transport (run schedule (connection_made ch)))) =
     min 10 (resumptions schedule) \<and>
   empty_reports (traffic (transport (run schedule (connection_made ch)))) \<le> 10 \<and>
   sender_task (run schedule (connection_made ch)) = sender_after (resumptions schedule) \<and>
   (sender_task (run schedule (connection_made ch)) = Finished) = (11 \<le> resumptions schedule) \<and>
   sender_task (step OutputReportArrives s) = sender_task s \<and>
   sender_task (step MainResumes s) = sender_task s"
proof -
  have "sender_task (connection_made ch) = sender_after 0"
    and "empty_reports (traffic (transport (connection_made ch))) = min 10 0"
    by (simp_all add: connection_made_def sender_after_def L2CAP_Transport_init_def empty_reports_def)
  from sender_after_run [OF this, of schedule]
  have r: "sender_task (run schedule (connection_made ch)) = sender_after (resumptions schedule)"
    and t: "empty_reports (traffic (transport (run schedule (connection_made ch)))) =
            min 10 (resumptions schedule)"
    by simp_all
  have f: "(sender_after (resumptions schedule) = Finished) = (11 \<le> resumptions schedule)"
    by (auto simp: sender_after_def)
  show ?thesis using r t f
    by (simp add: report_received_def wait_for_output_report_def)
qed

text \<open>
  Claim C6. Whenever \<^verbatim>\<open>create_hid_server\<close> returns its transport and protocol, an
  output report of the console has arrived before: the schedule holds a resumption of
  the main task with an arrival of an output report before it. The protocol returned has
  received that report, and it is part of the traffic of the returned transport.
\<close>

theorem create_hid_server_returns_after_output_report:
  "create_hid_server bt schedule ctl_psm itr_psm reconnect_bt_addr = Returned s \<Longrightarrow>
     main_task s = HasReturned \<and> data_received s \<and> OutputReport \<in> set (traffic (transport s)) \<and>
     OutputReportArrives \<in> set schedule \<and>
     (\<exists>before after. schedule = before @ MainResumes # after \<and> OutputReportArrives \<in> set before)"
proof -
  assume "create_hid_server bt schedule ctl_psm itr_psm reconnect_bt_addr = Returned s"
  then obtain ch where u: "run_until_return schedule (connection_made ch) = Some s"
    using create_hid_server_Returned by blast
  then have i: "contact_inv s \<and> main_task s = HasReturned"
    using run_until_return_inv [OF contact_inv_connection_made] by blast
  have "main_task (connection_made ch) = AwaitingOutputReport"
    and n: "\<not> data_received (connection_made ch)"
    by (simp_all add: connection_made_def)
  from returns_after_arrival [OF this(1) u] n obtain before after where
    b: "schedule = before @ MainResumes # after \<and> OutputReportArrives \<in> set before"
    by blast
  then have "OutputReportArrives \<in> set schedule" by auto
  with i b show ?thesis by (auto simp: contact_inv_def)
qed

theorem create_hid_server_returns_after_output_report_witness:
  "create_hid_server switch_bt [SenderResumes, OutputReportArrives, MainResumes] 17 19 None =
     Returned ((connection_made switch_channels)
        \<lparr>transport := (transport (connection_made switch_channels))\<lparr>traffic := [EmptyInputReport, OutputReport]\<rparr>,
          sender_task := Sleeping 0, main_task := HasReturned, data_received := True\<rparr>) \<and>
   OutputReport \<in> set (traffic (transport ((connection_made switch_channels)
        \<lparr>transport := (transport (connection_made switch_channels))\<lparr>traffic := [EmptyInputReport, OutputReport]\<rparr>,
          sender_task := Sleeping 0, main_task := HasReturned, data_received := True\<rparr>)))"
  using create_hid_server_returns_after_output_report [OF switch_returns] switch_returns
  by simp

text \<open>
  Claim C8. In the initial pairing, whenever \<^verbatim>\<open>create_hid_server\<close> returns, the peers
  of the control and of the interrupt connection have the same Bluetooth address, and
  these are the peers of the two sockets of the transport. When the two connections come
  from different addresses (and the ports could be bound) the assertion fails and no
  transport is returned.
\<close>

theorem pairing_peers_have_one_address:
  "(create_hid_server bt schedule ctl_psm itr_psm None = Returned s \<longrightarrow>
      fst (ctl_peer bt) = fst (itr_peer bt) \<and>
      peer (ctl_sock (transport s)) = Some (ctl_peer bt) \<and>
      peer (itr_sock (transport s)) = Some (itr_peer bt)) \<and>
   (fst (ctl_peer bt) \<noteq> fst (itr_peer bt) \<and> \<not> (ports_taken bt \<and> ports_taken_after_restart bt) \<longrightarrow>
      initial_pairing bt ctl_psm itr_psm = Inl AssertionError \<and>
      create_hid_server bt schedule ctl_psm itr_psm None = Raised AssertionError)"
proof (intro conjI impI)
  assume r: "create_hid_server bt schedule ctl_psm itr_psm None = Returned s"
  then obtain ch where e: "establish bt ctl_psm itr_psm None = Inr ch"
    and u: "run_until_return schedule (connection_made ch) = Some s"
    using create_hid_server_Returned by blast
  from e have p: "initial_pairing bt ctl_psm itr_psm = Inr ch" by (simp add: establish_def)
  note i = initial_pairing_Inr [OF p]
  note k = run_until_return_sockets [OF u]
  show "fst (ctl_peer bt) = fst (itr_peer bt)" using i by simp
  show "peer (ctl_sock (transport s)) = Some (ctl_peer bt)"
    using i k by (simp add: connection_made_def L2CAP_Transport_init_def setblocking_def)
  show "peer (itr_sock (transport s)) = Some (itr_peer bt)"
    using i k by (simp add: connection_made_def L2CAP_Transport_init_def setblocking_def)
next
  assume a: "fst (ctl_peer bt) \<noteq> fst (itr_peer bt) \<and> \<not> (ports_taken bt \<and> ports_taken_after_restart bt)"
  then show m: "initial_pairing bt ctl_psm itr_psm = Inl AssertionError"
    using initial_pairing_mismatch [of bt ctl_psm itr_psm] by auto
  show "create_hid_server bt schedule ctl_psm itr_psm None = Raised AssertionError"
    using m by (simp add: create_hid_server_def establish_def)
qed

theorem pairing_peers_have_one_address_witness:
  "fst (ctl_peer switch_bt) = fst (itr_peer switch_bt) \<and>
   create_hid_server (switch_bt\<lparr>itr_peer := (''00:11:22:33:44:55'', 19)\<rparr>)
     [SenderResumes, OutputReportArrives, MainResumes] 17 19 None = Raised AssertionError"
  using pairing_peers_have_one_address [of switch_bt "[SenderResumes, OutputReportArrives, MainResumes]" 17 19
      "(connection_made switch_channels)
        \<lparr>transport := (transport (connection_made switch_channels))\<lparr>traffic := [EmptyInputReport, OutputReport]\<rparr>,
          sender_task := Sleeping 0, main_task := HasReturned, data_received := True\<rparr>"]
    pairing_peers_have_one_address [of "switch_bt\<lparr>itr_peer := (''00:11:22:33:44:55'', 19)\<rparr>"
      "[SenderResumes, OutputReportArrives, MainResumes]" 17 19]
    switch_returns
  by (simp add: switch_bt_def)

text \<open>
  Claim C9. On both paths the two client sockets are non-blocking when the connection
  setup hands them to the transport, and so are the sockets of the returned transport.
  On the reconnection path the function sets them itself after connecting; on the
  initial pairing it sets the two listening sockets, and the accepted connections come
  non-blocking from \<^verbatim>\<open>loop.sock_accept\<close>.
\<close>

theorem channel_sockets_non_blocking:
  "(establish bt ctl_psm itr_psm reconnect_bt_addr = Inr ch \<longrightarrow>
      \<not> blocking (client_ctl ch) \<and> \<not> blocking (client_itr ch) \<and>
      \<not> blocking (ctl_sock (transport (connection_made ch))) \<and>
      \<not> blocking (itr_sock (transport (connection_made ch))) \<and>
      (reconnect_bt_addr = None \<longrightarrow>
         (\<exists>l. listening_ctl ch = Some l \<and> \<not> blocking l) \<and>
         (\<exists>l. listening_itr ch = Some l \<and> \<not> blocking l))) \<and>
   (create_hid_server bt schedule ctl_psm itr_psm reconnect_bt_addr = Returned s \<longrightarrow>
      \<not> blocking (ctl_sock (transport s)) \<and> \<not> blocking (itr_sock (transport s)))"
proof -
  have est: "\<not> blocking (client_ctl c) \<and> \<not> blocking (client_itr c) \<and>
      (reconnect_bt_addr = None \<longrightarrow>
         (\<exists>l. listening_ctl c = Some l \<and> \<not> blocking l) \<and>
         (\<exists>l. listening_itr c = Some l \<and> \<not> blocking l))"
    if e: "establish bt ctl_psm itr_psm reconnect_bt_addr = Inr c" for c
  proof (cases reconnect_bt_addr)
    case None
    with e have "initial_pairing bt ctl_psm itr_psm = Inr c" by (simp add: establish_def)
    from initial_pairing_Inr [OF this] show ?thesis by (simp add: setblocking_def)
  next
    case (Some a)
    with e have "reconnection bt ctl_psm itr_psm a = Inr c" by (simp add: establish_def)
    from reconnection_Inr [OF this] Some show ?thesis by (simp add: setblocking_def)
  qed
  have tr: "ctl_sock (transport (connection_made c)) = client_ctl c \<and>
            itr_sock (transport (connection_made c)) = client_itr c" for c
    by (simp add: connection_made_def L2CAP_Transport_init_def)
  have ret: "\<not> blocking (ctl_sock (transport s)) \<and> \<not> blocking (itr_sock (transport s))"
    if r: "create_hid_server bt schedule ctl_psm itr_psm reconnect_bt_addr = Returned s"
  proof -
    from r obtain c where e: "establish bt ctl_psm itr_psm reconnect_bt_addr = Inr c"
      and u: "run_until_return schedule (connection_made c) = Some s"
      using create_hid_server_Returned by blast
    from run_until_return_sockets [OF u] est [OF e] tr [of c] show ?thesis by simp
  qed
  show ?thesis using est [of ch] tr [of ch] ret by metis
qed

theorem channel_sockets_non_blocking_witness:
  "establish switch_bt 17 19 (Some ''98:B6:E9:00:00:02'') = Inr switch_channels \<and>
   \<not> blocking (client_ctl switch_channels) \<and> \<not> blocking (client_itr switch_channels) \<and>
   \<not> blocking (ctl_sock (transport (connection_made switch_channels))) \<and>
   \<not> blocking (itr_sock (transport (connection_made switch_channels))) \<and>
   create_hid_server switch_bt [SenderResumes, OutputReportArrives, MainResumes] 17 19 None =
     Returned ((connection_made switch_channels)
        \<lparr>transport := (transport (connection_made switch_channels))\<lparr>traffic := [EmptyInputReport, OutputReport]\<rparr>,
          sender_task := Sleeping 0, main_task := HasReturned, data_received := True\<rparr>)"
  using channel_sockets_non_blocking [of switch_bt 17 19 "Some ''98:B6:E9:00:00:02''" switch_channels
      "[SenderResumes, OutputReportArrives, MainResumes]"]
    switch_reconnects switch_returns
  by simp

section \<open>Properties of the script\<close>

text \<open>The example command line starts a session; the variant of a started session.\<close>

lemma cli_args_returns:
  "\<exists>sess. main [0, 0] pro_buttons centered dump_files switch_bt
      [SenderResumes, OutputReportArrives, MainResumes] cli_args = Returned sess"
  using switch_returns
  by (simp add: main_def main_spi_flash_def cli_args_def dump_files_def Controller_from_arg_def
      FlashMemory_init_def nfc_def set_nfc_def get_controller_def get_controller_state_def
      ControllerState_set_nfc_def Let_def)

lemma nfc_result_sticks:
  "nfc fs cs args = (e, cs') \<Longrightarrow>
     l_stick_state cs' = l_stick_state cs \<and> r_stick_state cs' = r_stick_state cs"
  by (auto simp: nfc_def set_nfc_def ControllerState_set_nfc_def split: if_splits option.splits)

lemma main_Returned_flash:
  "main default_data buttons_of calibration fs bt schedule args = Returned sess \<Longrightarrow>
     main_spi_flash default_data fs args = Inr (spi_flash sess) \<and>
     l_stick_state (controller_state sess) = fst (calibration (spi_flash sess)) \<and>
     r_stick_state (controller_state sess) = snd (calibration (spi_flash sess))"
  by (auto simp: main_def Let_def get_controller_state_def dest!: nfc_result_sticks
      split: sum.splits completion.splits option.splits prod.splits)

lemma main_spi_flash_dump:
  "arg_spi_flash args = Some path \<Longrightarrow> path \<noteq> [] \<Longrightarrow> fs path = Some bytes \<Longrightarrow>
     main_spi_flash default_data fs args = Inr \<lparr>data = bytes\<rparr>"
  by (simp add: main_spi_flash_def FlashMemory_init_def)

lemma main_spi_flash_default:
  "arg_spi_flash args = None \<Longrightarrow> main_spi_flash default_data fs args = Inr \<lparr>data = default_data\<rparr>"
  by (simp add: main_spi_flash_def FlashMemory_init_def)

lemma reads_of_image:
  "spi_flash sess = \<lparr>data = img\<rparr> \<Longrightarrow>
     spi_flash_read sess 0 (length img) = Inr img \<and>
     (address + len \<le> length img \<longrightarrow>
        spi_flash_read sess address len = Inr (take len (drop address img)))"
  by (simp add: spi_flash_read_def FlashMemory_read_def)

lemma cli_args_dump_session:
  "\<exists>sess. main [9, 8] pro_buttons first_bytes dump_files switch_bt
      [SenderResumes, OutputReportArrives, MainResumes] cli_args = Returned sess"
  using switch_returns
  by (simp add: main_def main_spi_flash_def cli_args_def dump_files_def Controller_from_arg_def
      FlashMemory_init_def nfc_def set_nfc_def get_controller_def get_controller_state_def
      ControllerState_set_nfc_def Let_def)

lemma cli_args_default_session:
  "\<exists>sess. main [9, 8] pro_buttons first_bytes dump_files switch_bt
      [SenderResumes, OutputReportArrives, MainResumes] (cli_args\<lparr>arg_spi_flash := None\<rparr>) = Returned sess"
  using switch_returns
  by (simp add: main_def main_spi_flash_def cli_args_def dump_files_def Controller_from_arg_def
      FlashMemory_init_def nfc_def set_nfc_def get_controller_def get_controller_state_def
      ControllerState_set_nfc_def Let_def)

lemma nfc_result_controller: "nfc fs cs args = (e, cs') \<Longrightarrow> controller cs' = controller cs"
  using nfc_controller [of fs cs args] by simp

lemma main_Returned_controller:
  "main default_data buttons_of calibration fs bt schedule args = Returned sess \<Longrightarrow>
     Controller_from_arg (arg_controller args) = Inr (controller (controller_state sess))"
  by (auto simp: main_def Let_def get_controller_state_def dest!: nfc_result_controller
      split: sum.splits completion.splits option.splits prod.splits)

text \<open>
  Claim C4. A button name that is not among the available buttons of the controller
  state makes the mash operation, the mash command and \<^verbatim>\<open>set_button\<close> raise a
  \<^verbatim>\<open>ValueError\<close> at once: the state returned with the error is the state given, so no
  button was pressed and no report was sent.
\<close>

theorem unavailable_button_raises:
  "button \<notin> set (get_available_buttons (button_state cs)) \<Longrightarrow>
     (\<exists>m. mash_button float_ok presses cs button interval = (Some (ValueError m), cs)) \<and>
     (\<exists>m. call_mash_button float_ok presses cs [button, interval] = (Some (ValueError m), cs)) \<and>
     (\<exists>m. set_button button p cs = (Some (ValueError m), cs))"
  by (simp add: mash_button_def call_mash_button_def connect_def set_button_def)

theorem unavailable_button_raises_witness:
  "(\<exists>m. mash_button (\<lambda>i. True) 3 pro_state ''zr'' ''0.5'' = (Some (ValueError m), pro_state)) \<and>
   (\<exists>m. call_mash_button (\<lambda>i. True) 3 pro_state [''zr'', ''0.5''] = (Some (ValueError m), pro_state)) \<and>
   (\<exists>m. set_button ''zr'' True pro_state = (Some (ValueError m), pro_state))"
proof -
  have "''zr'' \<notin> set (get_available_buttons (button_state pro_state))"
    by (simp add: get_available_buttons_def pro_state_def)
  from unavailable_button_raises [OF this] show ?thesis by blast
qed

text \<open>
  Claim C3. With a dump file given (a non-empty path of an existing file), the flash
  memory is built from the bytes of that file, all of them in order; with no dump file
  it is built from the built-in default data. That memory is the one handed to the
  protocol of the started session: the flash reads of the session are served from the
  seeded bytes, the whole image at address 0 and every range within bounds, and the
  stick calibration of the controller state is read from the seeded image.
\<close>

theorem flash_seeded_from_dump_or_default:
  "(arg_spi_flash args = Some path \<and> path \<noteq> [] \<and> fs path = Some bytes \<longrightarrow>
      main_spi_flash default_data fs args = Inr \<lparr>data = bytes\<rparr> \<and>
      FlashMemory_read \<lparr>data = bytes\<rparr> 0 (length bytes) = Inr bytes) \<and>
   (arg_spi_flash args = None \<longrightarrow>
      main_spi_flash default_data fs args = Inr \<lparr>data = default_data\<rparr> \<and>
      FlashMemory_read \<lparr>data = default_data\<rparr> 0 (length default_data) = Inr default_data) \<and>
   (main default_data buttons_of calibration fs bt schedule args = Returned sess \<longrightarrow>
      main_spi_flash default_data fs args = Inr (spi_flash sess)) \<and>
   (address + len \<le> length (data m) \<longrightarrow>
      FlashMemory_read m address len = Inr (take len (drop address (data m)))) \<and>
   (main default_data buttons_of calibration fs bt schedule args = Returned sess \<and>
    arg_spi_flash args = Some path \<and> path \<noteq> [] \<and> fs path = Some bytes \<longrightarrow>
      spi_flash sess = \<lparr>data = bytes\<rparr> \<and>
      spi_flash_read sess 0 (length bytes) = Inr bytes \<and>
      (address + len \<le> length bytes \<longrightarrow>
         spi_flash_read sess address len = Inr (take len (drop address bytes))) \<and>
      l_stick_state (controller_state sess) = fst (calibration \<lparr>data = bytes\<rparr>) \<and>
      r_stick_state (controller_state sess) = snd (calibration \<lparr>data = bytes\<rparr>)) \<and>
   (main default_data buttons_of calibration fs bt schedule args = Returned sess \<and>
    arg_spi_flash args = None \<longrightarrow>
      spi_flash sess = \<lparr>data = default_data\<rparr> \<and>
      spi_flash_read sess 0 (length default_data) = Inr default_data \<and>
      (address + len \<le> length default_data \<longrightarrow>
         spi_flash_read sess address len = Inr (take len (drop address default_data))) \<and>
      l_stick_state (controller_state sess) = fst (calibration \<lparr>data = default_data\<rparr>) \<and>
      r_stick_state (controller_state sess) = snd (calibration \<lparr>data = default_data\<rparr>))"
proof (intro conjI impI)
  assume a: "arg_spi_flash args = Some path \<and> path \<noteq> [] \<and> fs path = Some bytes"
  then show "main_spi_flash default_data fs args = Inr \<lparr>data = bytes\<rparr>"
    by (simp add: main_spi_flash_dump)
  show "FlashMemory_read \<lparr>data = bytes\<rparr> 0 (length bytes) = Inr bytes"
    by (simp add: FlashMemory_read_def)
next
  assume "arg_spi_flash args = None"
  then show "main_spi_flash default_data fs args = Inr \<lparr>data = default_data\<rparr>"
    by (simp add: main_spi_flash_default)
  show "FlashMemory_read \<lparr>data = default_data\<rparr> 0 (length default_data) = Inr default_data"
    by (simp add: FlashMemory_read_def)
next
  assume "main default_data buttons_of calibration fs bt schedule args = Returned sess"
  from main_Returned_flash [OF this]
  show "main_spi_flash default_data fs args = Inr (spi_flash sess)" by simp
next
  assume "address + len \<le> length (data m)"
  then show "FlashMemory_read m address len = Inr (take len (drop address (data m)))"
    by (simp add: FlashMemory_read_def)
next
  assume a: "main default_data buttons_of calibration fs bt schedule args = Returned sess \<and>
    arg_spi_flash args = Some path \<and> path \<noteq> [] \<and> fs path = Some bytes"
  note f = main_Returned_flash [OF a [THEN conjunct1]]
  from a have "main_spi_flash default_data fs args = Inr \<lparr>data = bytes\<rparr>"
    by (simp add: main_spi_flash_dump)
  with f show s: "spi_flash sess = \<lparr>data = bytes\<rparr>" by simp
  note r = reads_of_image [OF s]
  from r show "spi_flash_read sess 0 (length bytes) = Inr bytes" by simp
  from f s show "l_stick_state (controller_state sess) = fst (calibration \<lparr>data = bytes\<rparr>)" by simp
  from f s show "r_stick_state (controller_state sess) = snd (calibration \<lparr>data = bytes\<rparr>)" by simp
  assume "address + len \<le> length bytes"
  with r show "spi_flash_read sess address len = Inr (take len (drop address bytes))" by simp
next
  assume a: "main default_data buttons_of calibration fs bt schedule args = Returned sess \<and>
    arg_spi_flash args = None"
  note f = main_Returned_flash [OF a [THEN conjunct1]]
  from a have "main_spi_flash default_data fs args = Inr \<lparr>data = default_data\<rparr>"
    by (simp add: main_spi_flash_default)
  with f show s: "spi_flash sess = \<lparr>data = default_data\<rparr>" by simp
  note r = reads_of_image [OF s]
  from r show "spi_flash_read sess 0 (length default_data) = Inr default_data" by simp
  from f s show "l_stick_state (controller_state sess) = fst (calibration \<lparr>data = default_data\<rparr>)" by simp
  from f s show "r_stick_state (controller_state sess) = snd (calibration \<lparr>data = default_data\<rparr>)" by simp
  assume "address + len \<le> length default_data"
  with r show "spi_flash_read sess address len = Inr (take len (drop address default_data))" by simp
qed

theorem flash_seeded_from_dump_or_default_witness:
  "(\<exists>sess. main [9, 8] pro_buttons first_bytes dump_files switch_bt
        [SenderResumes, OutputReportArrives, MainResumes] cli_args = Returned sess \<and>
      spi_flash sess = \<lparr>data = [255, 0, 16, 32]\<rparr> \<and>
      spi_flash_read sess 0 (length [255, 0, 16, 32 :: byte]) = Inr [255, 0, 16, 32] \<and>
      spi_flash_read sess 1 2 = Inr [0, 16] \<and>
      h_center (l_stick_state (controller_state sess)) = 255 \<and>
      h_center (r_stick_state (controller_state sess)) = 0) \<and>
   (\<exists>sess. main [9, 8] pro_buttons first_bytes dump_files switch_bt
        [SenderResumes, OutputReportArrives, MainResumes] (cli_args\<lparr>arg_spi_flash := None\<rparr>) = Returned sess \<and>
      spi_flash sess = \<lparr>data = [9, 8]\<rparr> \<and>
      spi_flash_read sess 0 (length [9, 8 :: byte]) = Inr [9, 8] \<and>
      spi_flash_read sess 1 1 = Inr [8] \<and>
      h_center (l_stick_state (controller_state sess)) = 9 \<and>
      h_center (r_stick_state (controller_state sess)) = 8)"
proof -
  obtain d where m: "main [9, 8] pro_buttons first_bytes dump_files switch_bt
      [SenderResumes, OutputReportArrives, MainResumes] cli_args = Returned d"
    using cli_args_dump_session by blast
  have a: "arg_spi_flash cli_args = Some ''flash.bin'' \<and> ''flash.bin'' \<noteq> [] \<and>
           dump_files ''flash.bin'' = Some [255, 0, 16, 32]"
    by (simp add: cli_args_def dump_files_def)
  have b: "(1::nat) + 2 \<le> length [255, 0, 16, 32 :: byte]" by simp
  have 1: "spi_flash d = \<lparr>data = [255, 0, 16, 32]\<rparr> \<and>
      spi_flash_read d 0 (length [255, 0, 16, 32 :: byte]) = Inr [255, 0, 16, 32] \<and>
      spi_flash_read d 1 2 = Inr (take 2 (drop 1 [255, 0, 16, 32])) \<and>
      l_stick_state (controller_state d) = fst (first_bytes \<lparr>data = [255, 0, 16, 32]\<rparr>) \<and>
      r_stick_state (controller_state d) = snd (first_bytes \<lparr>data = [255, 0, 16, 32]\<rparr>)"
    using flash_seeded_from_dump_or_default
      [where args = cli_args and path = "''flash.bin''" and fs = dump_files
         and bytes = "[255, 0, 16, 32]" and default_data = "[9, 8]" and buttons_of = pro_buttons
         and calibration = first_bytes and bt = switch_bt
         and schedule = "[SenderResumes, OutputReportArrives, MainResumes]" and sess = d
         and address = 1 and len = 2] a b m
    by blast
  then have 2: "spi_flash_read d 1 2 = Inr [0, 16] \<and>
      h_center (l_stick_state (controller_state d)) = 255 \<and>
      h_center (r_stick_state (controller_state d)) = 0"
    by (simp add: first_bytes_def stick_at_def)
  obtain e where n: "main [9, 8] pro_buttons first_bytes dump_files switch_bt
      [SenderResumes, OutputReportArrives, MainResumes] (cli_args\<lparr>arg_spi_flash := None\<rparr>) = Returned e"
    using cli_args_default_session by blast
  have c: "arg_spi_flash (cli_args\<lparr>arg_spi_flash := None\<rparr>) = None" by simp
  have b': "(1::nat) + 1 \<le> length [9, 8 :: byte]" by simp
  have 3: "spi_flash e = \<lparr>data = [9, 8]\<rparr> \<and>
      spi_flash_read e 0 (length [9, 8 :: byte]) = Inr [9, 8] \<and>
      spi_flash_read e 1 1 = Inr (take 1 (drop 1 [9, 8])) \<and>
      l_stick_state (controller_state e) = fst (first_bytes \<lparr>data = [9, 8]\<rparr>) \<and>
      r_stick_state (controller_state e) = snd (first_bytes \<lparr>data = [9, 8]\<rparr>)"
    using flash_seeded_from_dump_or_default
      [where args = "cli_args\<lparr>arg_spi_flash := None\<rparr>" and fs = dump_files
         and default_data = "[9, 8]" and buttons_of = pro_buttons
         and calibration = first_bytes and bt = switch_bt
         and schedule = "[SenderResumes, OutputReportArrives, MainResumes]" and sess = e
         and address = 1 and len = 1] c b' n
    by blast
  then have 4: "spi_flash_read e 1 1 = Inr [8] \<and>
      h_center (l_stick_state (controller_state e)) = 9 \<and>
      h_center (r_stick_state (controller_state e)) = 8"
    by (simp add: first_bytes_def stick_at_def)
  from m 1 2 n 3 4 show ?thesis by blast
qed

text \<open>
  Claim C10. The variant of a started session is the one that the command line names,
  one of the three identifiers; whatever commands run afterwards (mash, nfc, the friend
  remover script, playback steps), \<^verbatim>\<open>get_controller\<close> gives the same variant.
\<close>

theorem controller_variant_fixed:
  "main default_data buttons_of calibration fs bt schedule args = Returned sess \<Longrightarrow>
     Controller_from_arg (arg_controller args) = Inr (get_controller (controller_state sess)) \<and>
     arg_controller args \<in> {''JOYCON_L'', ''JOYCON_R'', ''PRO_CONTROLLER''} \<and>
     get_controller (cli_run float_ok fs' cmds (controller_state sess)) =
       get_controller (controller_state sess)"
proof -
  assume "main default_data buttons_of calibration fs bt schedule args = Returned sess"
  then have c: "Controller_from_arg (arg_controller args) = Inr (controller (controller_state sess))"
    by (rule main_Returned_controller)
  then have "arg_controller args \<in> {''JOYCON_L'', ''JOYCON_R'', ''PRO_CONTROLLER''}"
    by (auto simp: Controller_from_arg_def split: if_splits)
  with c show ?thesis
    by (simp add: get_controller_def cli_run_controller)
qed

theorem controller_variant_fixed_witness:
  "\<exists>sess. main [0, 0] pro_buttons centered dump_files switch_bt
        [SenderResumes, OutputReportArrives, MainResumes] cli_args = Returned sess \<and>
     get_controller (controller_state sess) = PRO_CONTROLLER \<and>
     get_controller (cli_run (\<lambda>i. True) dump_files
        [Nfc [''remove''], Mash [''a'', ''0.5''] 2, Playback ''lStickUp'', Remove]
        (controller_state sess)) = PRO_CONTROLLER"
proof -
  obtain sess where m: "main [0, 0] pro_buttons centered dump_files switch_bt
      [SenderResumes, OutputReportArrives, MainResumes] cli_args = Returned sess"
    using cli_args_returns by blast
  from controller_variant_fixed [OF m, of "\<lambda>i. True" dump_files
      "[Nfc [''remove''], Mash [''a'', ''0.5''] 2, Playback ''lStickUp'', Remove]"]
  have "get_controller (controller_state sess) = PRO_CONTROLLER \<and>
     get_controller (cli_run (\<lambda>i. True) dump_files
        [Nfc [''remove''], Mash [''a'', ''0.5''] 2, Playback ''lStickUp'', Remove]
        (controller_state sess)) = PRO_CONTROLLER"
    by (simp add: cli_args_def Controller_from_arg_def)
  with m show ?thesis by blast
qed

section \<open>Properties of the send primitive\<close>

lemma send_returns:
  "send cs = (None, cs') \<Longrightarrow> \<not> closed cs \<and> cs' = cs\<lparr>transmitted := transmitted cs @ [snapshot cs]\<rparr>"
  by (auto simp: send_def split: if_splits)

lemma and_then_send:
  "and_then r send = (None, cs') \<Longrightarrow>
     \<exists>cs1. r = (None, cs1) \<and> cs' = cs1\<lparr>transmitted := transmitted cs1 @ [snapshot cs1]\<rparr>"
  by (cases r; cases "fst r") (auto dest: send_returns)

lemma snapshot_transmitted [simp]: "snapshot (cs\<lparr>transmitted := t\<rparr>) = snapshot cs"
  by (simp add: snapshot_def)

lemma set_button_returns:
  "set_button b p cs = (None, cs1) \<Longrightarrow>
     b \<in> set (available_buttons (button_state cs1)) \<and> pushed (button_state cs1) b = p \<and>
     transmitted cs1 = transmitted cs"
  by (auto simp: set_button_def get_available_buttons_def split: if_splits)

lemma set_LeftStick_returns:
  "set_LeftStick d cs = (None, cs1) \<Longrightarrow>
     ControllerCLI_set_stick (l_stick_state cs) d = Inr (l_stick_state cs1) \<and>
     transmitted cs1 = transmitted cs"
  by (auto simp: set_LeftStick_def split: sum.splits)

lemma set_RightStick_returns:
  "set_RightStick d cs = (None, cs1) \<Longrightarrow>
     ControllerCLI_set_stick (r_stick_state cs) d = Inr (r_stick_state cs1) \<and>
     transmitted cs1 = transmitted cs"
  by (auto simp: set_RightStick_def split: sum.splits)

lemma button_then_send:
  assumes "and_then (set_button b True cs) send = (None, cs')"
  shows "transmitted cs' = transmitted cs @ [snapshot cs'] \<and> report_buttons (snapshot cs') b"
proof -
  from and_then_send [OF assms] obtain cs1 where s: "set_button b True cs = (None, cs1)"
    and c: "cs' = cs1\<lparr>transmitted := transmitted cs1 @ [snapshot cs1]\<rparr>" by blast
  from set_button_returns [OF s] c show ?thesis by (simp add: snapshot_def)
qed

lemma left_then_send:
  assumes "and_then (set_LeftStick d cs) send = (None, cs')"
  shows "transmitted cs' = transmitted cs @ [snapshot cs'] \<and>
         ControllerCLI_set_stick (l_stick_state cs) d = Inr (l_stick_state cs')"
proof -
  from and_then_send [OF assms] obtain cs1 where s: "set_LeftStick d cs = (None, cs1)"
    and c: "cs' = cs1\<lparr>transmitted := transmitted cs1 @ [snapshot cs1]\<rparr>" by blast
  from set_LeftStick_returns [OF s] c show ?thesis by simp
qed

lemma right_then_send:
  assumes "and_then (set_RightStick d cs) send = (None, cs')"
  shows "transmitted cs' = transmitted cs @ [snapshot cs'] \<and>
         ControllerCLI_set_stick (r_stick_state cs) d = Inr (r_stick_state cs')"
proof -
  from and_then_send [OF assms] obtain cs1 where s: "set_RightStick d cs = (None, cs1)"
    and c: "cs' = cs1\<lparr>transmitted := transmitted cs1 @ [snapshot cs1]\<rparr>" by blast
  from set_RightStick_returns [OF s] c show ?thesis by simp
qed

lemma directStateSet_button:
  "btnTrans \<in> set btnsList \<Longrightarrow>
     directStateSet btnTrans cs = and_then (set_button btnTrans True cs) send"
  by (simp add: directStateSet_def)

lemma directStateSet_left:
  "btnTrans \<in> set lStickList \<Longrightarrow>
     directStateSet btnTrans cs = and_then (set_LeftStick (stick_direction btnTrans) cs) send"
  by (auto simp: directStateSet_def lStickList_def btnsList_def stick_direction_def)

lemma directStateSet_right:
  "btnTrans \<in> set rStickList \<Longrightarrow>
     directStateSet btnTrans cs = and_then (set_RightStick (stick_direction btnTrans) cs) send"
  by (auto simp: directStateSet_def rStickList_def lStickList_def btnsList_def stick_direction_def)

text \<open>
  Claim C2. When \<^verbatim>\<open>send\<close> returns, an input report with the snapshot of the state
  at the call has been handed to the transport as its newest report. So each step of
  \<^verbatim>\<open>directStateSet\<close> that returns has transmitted, last, a report that shows its
  mutation: the pressed button, or the stick at the position of the recorded direction.
\<close>

theorem send_hands_snapshot_to_transport:
  "(send cs = (None, cs') \<longrightarrow> transmitted cs' = transmitted cs @ [snapshot cs]) \<and>
   (btnTrans \<in> set btnsList \<and> directStateSet btnTrans cs = (None, cs') \<longrightarrow>
      transmitted cs' = transmitted cs @ [snapshot cs'] \<and>
      report_buttons (last (transmitted cs')) btnTrans) \<and>
   (btnTrans \<in> set lStickList \<and> directStateSet btnTrans cs = (None, cs') \<longrightarrow>
      transmitted cs' = transmitted cs @ [snapshot cs'] \<and>
      ControllerCLI_set_stick (l_stick_state cs) (stick_direction btnTrans) = Inr (l_stick_state cs') \<and>
      report_l_stick (last (transmitted cs')) = (h_stick (l_stick_state cs'), v_stick (l_stick_state cs'))) \<and>
   (btnTrans \<in> set rStickList \<and> directStateSet btnTrans cs = (None, cs') \<longrightarrow>
      transmitted cs' = transmitted cs @ [snapshot cs'] \<and>
      ControllerCLI_set_stick (r_stick_state cs) (stick_direction btnTrans) = Inr (r_stick_state cs') \<and>
      report_r_stick (last (transmitted cs')) = (h_stick (r_stick_state cs'), v_stick (r_stick_state cs')))"
proof (intro conjI impI)
  assume "send cs = (None, cs')"
  from send_returns [OF this] show "transmitted cs' = transmitted cs @ [snapshot cs]" by simp
next
  assume a: "btnTrans \<in> set btnsList \<and> directStateSet btnTrans cs = (None, cs')"
  then have "and_then (set_button btnTrans True cs) send = (None, cs')"
    using directStateSet_button [of btnTrans cs] by auto
  note b = button_then_send [OF this]
  from b show "transmitted cs' = transmitted cs @ [snapshot cs']" by simp
  from b show "report_buttons (last (transmitted cs')) btnTrans" by simp
next
  assume a: "btnTrans \<in> set lStickList \<and> directStateSet btnTrans cs = (None, cs')"
  then have "and_then (set_LeftStick (stick_direction btnTrans) cs) send = (None, cs')"
    using directStateSet_left [of btnTrans cs] by auto
  note b = left_then_send [OF this]
  from b show "transmitted cs' = transmitted cs @ [snapshot cs']" by simp
  from b show "ControllerCLI_set_stick (l_stick_state cs) (stick_direction btnTrans) = Inr (l_stick_state cs')"
    by simp
  from b show "report_l_stick (last (transmitted cs')) = (h_stick (l_stick_state cs'), v_stick (l_stick_state cs'))"
    by (simp add: snapshot_def)
next
  assume a: "btnTrans \<in> set rStickList \<and> directStateSet btnTrans cs = (None, cs')"
  then have "and_then (set_RightStick (stick_direction btnTrans) cs) send = (None, cs')"
    using directStateSet_right [of btnTrans cs] by auto
  note b = right_then_send [OF this]
  from b show "transmitted cs' = transmitted cs @ [snapshot cs']" by simp
  from b show "ControllerCLI_set_stick (r_stick_state cs) (stick_direction btnTrans) = Inr (r_stick_state cs')"
    by simp
  from b show "report_r_stick (last (transmitted cs')) = (h_stick (r_stick_state cs'), v_stick (r_stick_state cs'))"
    by (simp add: snapshot_def)
qed

lemma pro_press_a:
  "directStateSet ''a'' pro_state =
     (None, pro_state\<lparr>button_state := (button_state pro_state)\<lparr>pushed := (\<lambda>b. b = ''a'')\<rparr>,
                      transmitted := [snapshot (pro_state\<lparr>button_state := (button_state pro_state)\<lparr>pushed := (\<lambda>b. b = ''a'')\<rparr>\<rparr>)]\<rparr>)"
  by (auto simp: directStateSet_def btnsList_def set_button_def get_available_buttons_def
      pro_state_def send_def fun_upd_def)

lemma pro_stick_up:
  "directStateSet ''lStickUp'' pro_state =
     (None, pro_state\<lparr>l_stick_state := (l_stick_state pro_state)\<lparr>h_stick := 2048, v_stick := 3584\<rparr>,
                      transmitted := [snapshot (pro_state\<lparr>l_stick_state := (l_stick_state pro_state)\<lparr>h_stick := 2048, v_stick := 3584\<rparr>\<rparr>)]\<rparr>)"
  by (simp add: directStateSet_def btnsList_def lStickList_def set_LeftStick_def
      ControllerCLI_set_stick_def pro_state_def send_def)

theorem send_hands_snapshot_to_transport_witness:
  "fst (directStateSet ''a'' pro_state) = None \<and>
   report_buttons (last (transmitted (snd (directStateSet ''a'' pro_state)))) ''a'' \<and>
   fst (directStateSet ''lStickUp'' pro_state) = None \<and>
   report_l_stick (last (transmitted (snd (directStateSet ''lStickUp'' pro_state)))) = (2048, 3584) \<and>
   length (transmitted (snd (directStateSet ''lStickUp'' pro_state))) = 1"
proof -
  have a: "''a'' \<in> set btnsList \<and>
           directStateSet ''a'' pro_state = (None, snd (directStateSet ''a'' pro_state))"
    by (simp add: btnsList_def pro_press_a)
  have u: "''lStickUp'' \<in> set lStickList \<and>
           directStateSet ''lStickUp'' pro_state = (None, snd (directStateSet ''lStickUp'' pro_state))"
    by (simp add: lStickList_def pro_stick_up)
  have 1: "report_buttons (last (transmitted (snd (directStateSet ''a'' pro_state)))) ''a''"
    using send_hands_snapshot_to_transport
      [where cs = pro_state and cs' = "snd (directStateSet ''a'' pro_state)" and btnTrans = "''a''"] a
    by blast
  have 2: "report_l_stick (last (transmitted (snd (directStateSet ''lStickUp'' pro_state)))) =
             (h_stick (l_stick_state (snd (directStateSet ''lStickUp'' pro_state))),
              v_stick (l_stick_state (snd (directStateSet ''lStickUp'' pro_state))))"
    using send_hands_snapshot_to_transport
      [where cs = pro_state and cs' = "snd (directStateSet ''lStickUp'' pro_state)"
         and btnTrans = "''lStickUp''"] u
    by blast
  have 3: "h_stick (l_stick_state (snd (directStateSet ''lStickUp'' pro_state))) = 2048 \<and>
           v_stick (l_stick_state (snd (directStateSet ''lStickUp'' pro_state))) = 3584"
    by (simp add: pro_stick_up)
  from 2 3 have 4: "report_l_stick (last (transmitted (snd (directStateSet ''lStickUp'' pro_state)))) = (2048, 3584)"
    by simp
  have 7: "length (transmitted (snd (directStateSet ''lStickUp'' pro_state))) = 1"
    by (simp add: pro_stick_up)
  from a have 5: "fst (directStateSet ''a'' pro_state) = None" by (metis fst_conv)
  from u have 6: "fst (directStateSet ''lStickUp'' pro_state) = None" by (metis fst_conv)
  from 1 4 5 6 7 show ?thesis by blast
qed

end
